theory Spec2Isabelle
  imports Complex_Main "HOL-Library.Word"
begin

section \<open>Numeric conventions\<close>

text \<open>
  The sampler is a single C++ header, \<^verbatim>\<open>advanced_sampler.h\<close>. Its \<^verbatim>\<open>int\<close> values are
  modelled as \<^typ>\<open>int\<close> (only comparisons, differences of MIDI note numbers and sample
  indices occur), its \<^verbatim>\<open>float\<close> and \<^verbatim>\<open>double\<close> values as \<^typ>\<open>real\<close>: arithmetic is
  exact, rounding is not modelled. A C++ conversion \<^verbatim>\<open>(int) x\<close> of a floating value
  truncates toward zero.
\<close>

definition truncate_int :: "real \<Rightarrow> int" where
  "truncate_int x = (if 0 \<le> x then \<lfloor>x\<rfloor> else \<lceil>x\<rceil>)"

text \<open>\<^verbatim>\<open>(int) v\<close> for a 64-bit integer \<^verbatim>\<open>v\<close>: the low 32 bits, read as signed.\<close>

definition int32_cast :: "int \<Rightarrow> int" where
  "int32_cast v = sint (word_of_int v :: 32 word)"

text \<open>\<^verbatim>\<open>juce::jlimit (lowerLimit, upperLimit, valueToConstrain)\<close>.\<close>

definition jlimit :: "'a::linorder \<Rightarrow> 'a \<Rightarrow> 'a \<Rightarrow> 'a" where
  "jlimit lowerLimit upperLimit valueToConstrain =
     (if valueToConstrain < lowerLimit then lowerLimit
      else if upperLimit < valueToConstrain then upperLimit
      else valueToConstrain)"

section \<open>Sample data\<close>

text \<open>
  \<^verbatim>\<open>juce::AudioBuffer<float>\<close>: a number of channels, each holding the same number of
  samples. \<^verbatim>\<open>getReadPointer (c)\<close> is the list \<open>channelData b ! c\<close>; reading it at an index
  is \<open>readAt\<close>, which makes an index outside the channel an error value.
\<close>

record AudioBuffer =
  channelData :: "real list list"
  bufferSize :: nat

definition getNumChannels :: "AudioBuffer \<Rightarrow> int" where
  "getNumChannels b = int (length (channelData b))"

definition getNumSamples :: "AudioBuffer \<Rightarrow> int" where
  "getNumSamples b = int (bufferSize b)"

definition emptyBuffer :: AudioBuffer where
  "emptyBuffer = \<lparr>channelData = [], bufferSize = 0\<rparr>"

text \<open>The class invariant of the buffer: every channel has \<open>bufferSize\<close> samples.\<close>

definition buffer_ok :: "AudioBuffer \<Rightarrow> bool" where
  "buffer_ok b = list_all (\<lambda>c. length c = bufferSize b) (channelData b)"

datatype error = IndexOutOfRange int | NoSuchChannel

definition readAt :: "real list \<Rightarrow> int \<Rightarrow> error + real" where
  "readAt p i = (if 0 \<le> i \<and> i < int (length p) then Inr (p ! nat i) else Inl (IndexOutOfRange i))"

text \<open>\<^verbatim>\<open>struct SampleData\<close>, with its default member initialisers.\<close>

record SampleData =
  audioData :: AudioBuffer
  sampleRate :: real
  rootNote :: int
  lowestNote :: int
  highestNote :: int
  loopStart :: real
  loopEnd :: real
  loopEnabled :: bool
  loopMode :: int
  name :: string
  filePath :: string

definition defaultSampleData :: SampleData where
  "defaultSampleData =
     \<lparr>audioData = emptyBuffer, sampleRate = 44100, rootNote = 60, lowestNote = 0,
      highestNote = 127, loopStart = 0.25, loopEnd = 0.75, loopEnabled = False,
      loopMode = 0, name = [], filePath = []\<rparr>"

section \<open>SampleEngine\<close>

text \<open>
  \<^verbatim>\<open>juce::File\<close> and \<^verbatim>\<open>juce::AudioFormatReader\<close> belong to the JUCE library. A file is
  represented by the two strings the engine asks it for, a reader by the fields the engine
  reads and by the decoded samples that \<^verbatim>\<open>reader->read\<close> delivers (channel, then index).
  \<^verbatim>\<open>formatManager.createReaderFor\<close> is a parameter of \<open>loadSample\<close>: it yields \<open>None\<close>
  for the null pointer, when the file cannot be decoded.
\<close>

record File =
  fullPathName :: string
  fileNameWithoutExtension :: string

record AudioFormatReader =
  readerSampleRate :: real
  readerNumChannels :: nat
  lengthInSamples :: int
  decoded :: "nat \<Rightarrow> nat \<Rightarrow> real"

record SampleEngine =
  samples :: "SampleData list"

text \<open>
  \<^verbatim>\<open>audioData.setSize (numChannels, (int) lengthInSamples)\<close> followed by
  \<^verbatim>\<open>reader->read (&audioData, 0, (int) lengthInSamples, 0, true, true)\<close>.
\<close>

definition readInto :: "AudioFormatReader \<Rightarrow> AudioBuffer" where
  "readInto reader =
     (let n = nat (int32_cast (lengthInSamples reader)) in
      \<lparr>channelData = map (\<lambda>c. map (decoded reader c) [0..<n]) [0..<readerNumChannels reader],
       bufferSize = n\<rparr>)"

text \<open>
  \<^verbatim>\<open>void loadSample (const juce::File& file, int rootNote = 60)\<close>. The method returns
  \<^verbatim>\<open>void\<close>: the model returns the unit value beside the new engine state.
\<close>

definition loadSample ::
  "(File \<Rightarrow> AudioFormatReader option) \<Rightarrow> File \<Rightarrow> int \<Rightarrow> SampleEngine \<Rightarrow> unit \<times> SampleEngine" where
  "loadSample createReaderFor file rootNote' engine =
     (case createReaderFor file of
        None \<Rightarrow> ((), engine)
      | Some reader \<Rightarrow>
          (let newSample = defaultSampleData
                 \<lparr>name := fileNameWithoutExtension file,
                  filePath := fullPathName file,
                  sampleRate := readerSampleRate reader,
                  rootNote := rootNote',
                  audioData := readInto reader\<rparr>
           in ((), engine\<lparr>samples := samples engine @ [newSample]\<rparr>)))"

definition loadSample_default ::
  "(File \<Rightarrow> AudioFormatReader option) \<Rightarrow> File \<Rightarrow> SampleEngine \<Rightarrow> unit \<times> SampleEngine" where
  "loadSample_default createReaderFor file engine = loadSample createReaderFor file 60 engine"

definition clearSamples :: "SampleEngine \<Rightarrow> SampleEngine" where
  "clearSamples engine = engine\<lparr>samples := []\<rparr>"

text \<open>
  \<^verbatim>\<open>SampleData* getSampleForNote (int noteNumber)\<close>. The pointer \<^verbatim>\<open>&samples[i]\<close> is the
  index \<open>i\<close> into the vector, the null pointer is \<open>None\<close>.
\<close>

definition inNoteRange :: "SampleData \<Rightarrow> int \<Rightarrow> bool" where
  "inNoteRange sample noteNumber =
     (noteNumber \<ge> lowestNote sample \<and> noteNumber \<le> highestNote sample)"

primrec firstInRange :: "int \<Rightarrow> SampleData list \<Rightarrow> nat option" where
  "firstInRange noteNumber [] = None"
| "firstInRange noteNumber (sample # rest) =
     (if inNoteRange sample noteNumber then Some 0
      else map_option Suc (firstInRange noteNumber rest))"

definition getSampleForNote :: "SampleEngine \<Rightarrow> int \<Rightarrow> nat option" where
  "getSampleForNote engine noteNumber =
     (case firstInRange noteNumber (samples engine) of
        Some i \<Rightarrow> Some i
      | None \<Rightarrow> (if samples engine = [] then None else Some 0))"

section \<open>LFO\<close>

text \<open>
  \<^verbatim>\<open>class LFO\<close>. Its member \<^verbatim>\<open>juce::Random random\<close> is a generator state of some
  type \<open>'g\<close>; \<^verbatim>\<open>random.nextFloat()\<close> is a parameter \<open>nextFloat\<close> that returns the drawn
  value and the next generator state. The member \<^verbatim>\<open>sampleRate\<close> is named
  \<open>lfoSampleRate\<close> here, apart from the field of \<open>SampleData\<close>.
\<close>

record 'g LFO =
  lfoSampleRate :: real
  frequency :: real
  waveform :: int
  phase :: real
  randomValue :: real
  random_gen :: 'g

definition newLFO :: "'g \<Rightarrow> 'g LFO" where
  "newLFO g = \<lparr>lfoSampleRate = 44100, frequency = 1, waveform = 0, phase = 0,
               randomValue = 0, random_gen = g\<rparr>"

definition LFO_prepareToPlay :: "real \<Rightarrow> 'g LFO \<Rightarrow> 'g LFO" where
  "LFO_prepareToPlay sr lfo = lfo\<lparr>lfoSampleRate := sr\<rparr>"



text \<open>The \<^verbatim>\<open>switch (waveform)\<close> of \<^verbatim>\<open>getNextSample\<close>: the output and the oscillator after it.\<close>

definition waveformOutput :: "('g \<Rightarrow> real \<times> 'g) \<Rightarrow> 'g LFO \<Rightarrow> real \<times> 'g LFO" where
  "waveformOutput nextFloat lfo =
     (if waveform lfo = 0 then (sin (phase lfo * 2 * pi), lfo)
      else if waveform lfo = 1 then
        (2 * \<bar>2 * (phase lfo - of_int \<lfloor>phase lfo + 0.5\<rfloor>)\<bar> - 1, lfo)
      else if waveform lfo = 2 then ((if phase lfo < 0.5 then 1 else - 1), lfo)
      else if waveform lfo = 3 then (2 * (phase lfo - of_int \<lfloor>phase lfo + 0.5\<rfloor>), lfo)
      else if waveform lfo = 4 then
        (let lfo' =
           (if phase lfo \<ge> 1
            then (case nextFloat (random_gen lfo) of
                    (r, g') \<Rightarrow> lfo\<lparr>randomValue := r * 2 - 1, random_gen := g'\<rparr>)
            else lfo)
         in (randomValue lfo', lfo'))
      else (0, lfo))"

definition getNextSample :: "('g \<Rightarrow> real \<times> 'g) \<Rightarrow> 'g LFO \<Rightarrow> real \<times> 'g LFO" where
  "getNextSample nextFloat lfo =
     (case waveformOutput nextFloat lfo of
        (output, lfo1) \<Rightarrow>
          (let lfo2 = lfo1\<lparr>phase := phase lfo1 + frequency lfo1 / lfoSampleRate lfo1\<rparr>;
               lfo3 = (if phase lfo2 \<ge> 1 then lfo2\<lparr>phase := phase lfo2 - 1\<rparr> else lfo2)
           in (output, lfo3)))"

text \<open>
  A run of successive \<^verbatim>\<open>getNextSample\<close> calls on one oscillator: the samples it
  produces, and the oscillator afterwards.
\<close>

fun lfoSamples :: "('g \<Rightarrow> real \<times> 'g) \<Rightarrow> nat \<Rightarrow> 'g LFO \<Rightarrow> real list" where
  "lfoSamples nextFloat 0 lfo = []"
| "lfoSamples nextFloat (Suc n) lfo =
     (case getNextSample nextFloat lfo of (out, lfo') \<Rightarrow> out # lfoSamples nextFloat n lfo')"

fun lfoAfter :: "('g \<Rightarrow> real \<times> 'g) \<Rightarrow> nat \<Rightarrow> 'g LFO \<Rightarrow> 'g LFO" where
  "lfoAfter nextFloat 0 lfo = lfo"
| "lfoAfter nextFloat (Suc n) lfo = lfoAfter nextFloat n (snd (getNextSample nextFloat lfo))"

text \<open>
  The phase wraps in a call when the incremented phase reaches 1 and is reduced by 1.
  \<open>phaseWraps\<close> counts the calls of a run in which that happens.
\<close>

definition wrapsNow :: "'g LFO \<Rightarrow> bool" where
  "wrapsNow lfo = (phase lfo + frequency lfo / lfoSampleRate lfo \<ge> 1)"

fun phaseWraps :: "('g \<Rightarrow> real \<times> 'g) \<Rightarrow> nat \<Rightarrow> 'g LFO \<Rightarrow> nat" where
  "phaseWraps nextFloat 0 lfo = 0"
| "phaseWraps nextFloat (Suc n) lfo =
     (if wrapsNow lfo then 1 else 0) + phaseWraps nextFloat n (snd (getNextSample nextFloat lfo))"

section \<open>ModulationMatrix\<close>

datatype ModulationSource =
  LFO1 | LFO2 | LFO3 | Envelope | ModWheel | Velocity | KeyTrack | PitchBend | Aftertouch

datatype ModulationDestination =
  Volume | Pan | Pitch | FilterCutoff | FilterResonance | SampleStart | LoopStart | LoopEnd

text \<open>
  \<^verbatim>\<open>juce::AudioProcessorValueTreeState\<close> is read only through
  \<^verbatim>\<open>*getRawParameterValue (id)\<close>: it is a function from parameter identifiers to values.
  The two \<^verbatim>\<open>std::map\<close> members are maps; \<^verbatim>\<open>m[k]\<close> used as a value reads 0 for a key
  that is absent (and inserts it).
\<close>

type_synonym ValueTreeState = "string \<Rightarrow> real"

record 'g ModulationMatrix =
  lfos :: "'g LFO \<times> 'g LFO \<times> 'g LFO"
  sourceValues :: "ModulationSource \<rightharpoonup> real"
  destinationValues :: "ModulationDestination \<rightharpoonup> real"



definition ModulationMatrix_prepareToPlay :: "real \<Rightarrow> 'g ModulationMatrix \<Rightarrow> 'g ModulationMatrix" where
  "ModulationMatrix_prepareToPlay sr m =
     (case lfos m of (l0, l1, l2) \<Rightarrow>
        m\<lparr>lfos := (LFO_prepareToPlay sr l0, LFO_prepareToPlay sr l1, LFO_prepareToPlay sr l2)\<rparr>)"




definition getModulationValue :: "'g ModulationMatrix \<Rightarrow> ModulationDestination \<Rightarrow> real" where
  "getModulationValue m destination =
     (case destinationValues m destination of Some v \<Rightarrow> v | None \<Rightarrow> 0)"

definition setSourceValue :: "ModulationSource \<Rightarrow> real \<Rightarrow> 'g ModulationMatrix \<Rightarrow> 'g ModulationMatrix" where
  "setSourceValue source v m = m\<lparr>sourceValues := (sourceValues m)(source \<mapsto> v)\<rparr>"

section \<open>FilterEngine\<close>

text \<open>
  \<^verbatim>\<open>juce::dsp::StateVariableTPTFilter\<close> is library code: the model keeps the two settings
  the engine writes. The member \<^verbatim>\<open>ModulationMatrix* modMatrix\<close> points at the processor's
  matrix; \<open>processBlock\<close> receives what the pointer refers to at the call, \<open>None\<close> for
  the null pointer. Running the filter over the audio (\<^verbatim>\<open>filter.process\<close>) is the
  parameter \<open>process\<close>.
\<close>

record Filter =
  cutoffFrequency :: real
  resonance :: real

definition setCutoffFrequency :: "real \<Rightarrow> Filter \<Rightarrow> Filter" where
  "setCutoffFrequency f flt = flt\<lparr>cutoffFrequency := f\<rparr>"

definition setResonance :: "real \<Rightarrow> Filter \<Rightarrow> Filter" where
  "setResonance r flt = flt\<lparr>resonance := r\<rparr>"

text \<open>The settings \<^verbatim>\<open>FilterEngine::processBlock\<close> makes before it runs the filter.\<close>

definition configureFilter ::
  "ValueTreeState \<Rightarrow> 'g ModulationMatrix option \<Rightarrow> Filter \<Rightarrow> Filter" where
  "configureFilter vts modMatrix flt =
     (let cutoff = vts ''filter_cutoff'';
          res = vts ''filter_resonance'';
          flt1 =
            (case modMatrix of
               Some matrix \<Rightarrow>
                 (let cutoffMod = getModulationValue matrix FilterCutoff;
                      modulatedCutoff = cutoff + (cutoffMod * cutoff);
                      modulatedCutoff' = jlimit 20 20000 modulatedCutoff
                  in setCutoffFrequency modulatedCutoff' flt)
             | None \<Rightarrow> setCutoffFrequency cutoff flt)
      in setResonance res flt1)"

definition FilterEngine_processBlock ::
  "(Filter \<Rightarrow> AudioBuffer \<Rightarrow> Filter \<times> AudioBuffer) \<Rightarrow> ValueTreeState \<Rightarrow>
   'g ModulationMatrix option \<Rightarrow> Filter \<Rightarrow> AudioBuffer \<Rightarrow> Filter \<times> AudioBuffer" where
  "FilterEngine_processBlock process vts modMatrix flt buffer =
     process (configureFilter vts modMatrix flt) buffer"

section \<open>Voice\<close>

text \<open>
  \<^verbatim>\<open>juce::ADSR\<close> is library code. The voice uses it through five operations, which are
  the fields of \<open>ADSR_ops\<close> over an envelope state of some type \<open>'e\<close>; every function
  of the voice takes them as its first argument.
\<close>

record ADSR_Parameters =
  attack :: real
  decay :: real
  sustain :: real
  release :: real

record 'e ADSR_ops =
  adsr_setParameters :: "ADSR_Parameters \<Rightarrow> 'e \<Rightarrow> 'e"
  adsr_noteOn :: "'e \<Rightarrow> 'e"
  adsr_noteOff :: "'e \<Rightarrow> 'e"
  adsr_isActive :: "'e \<Rightarrow> bool"
  adsr_getNextSample :: "'e \<Rightarrow> real \<times> 'e"

text \<open>
  \<^verbatim>\<open>class AdvancedSamplerVoice : public juce::SynthesiserVoice\<close>. Of the base class the
  model keeps the note the voice is playing (\<^verbatim>\<open>clearCurrentNote\<close> sets it to \<open>-1\<close>,
  \<^verbatim>\<open>isVoiceActive\<close> tests it) and the playback rate that \<^verbatim>\<open>getSampleRate()\<close> returns.
  \<^verbatim>\<open>SampleData* currentSample\<close> is an index into the engine's vector.
\<close>

record 'e Voice =
  currentlyPlayingNote :: int
  currentSampleRate :: real
  normalizedPosition :: real
  voiceIndex :: nat
  currentSample :: "nat option"
  currentPosition :: real
  positionIncrement :: real
  noteNumber :: int
  velocity :: real
  loopingForward :: bool
  adsr :: 'e
  adsrParams :: ADSR_Parameters

text \<open>The two telemetry arrays of \<^verbatim>\<open>AdvancedSamplerProcessor\<close>, indexed by voice.\<close>

record Processor =
  voicePositions :: "nat \<Rightarrow> real"
  voiceActive :: "nat \<Rightarrow> bool"

text \<open>
  The output \<^verbatim>\<open>juce::AudioBuffer<float>\<close> of a render call: its number of channels and
  its samples by channel and index. The caller owns its size, which is not modelled.
\<close>

record OutputBuffer =
  outNumChannels :: int
  outSamples :: "int \<Rightarrow> int \<Rightarrow> real"

definition addSample :: "int \<Rightarrow> int \<Rightarrow> real \<Rightarrow> OutputBuffer \<Rightarrow> OutputBuffer" where
  "addSample destChannel destSample valueToAdd buf =
     buf\<lparr>outSamples := (outSamples buf)
        (destChannel := (outSamples buf destChannel)
           (destSample := outSamples buf destChannel destSample + valueToAdd))\<rparr>"

definition clearCurrentNote :: "'e Voice \<Rightarrow> 'e Voice" where
  "clearCurrentNote v = v\<lparr>currentlyPlayingNote := - 1\<rparr>"


definition updateADSRParams :: "'e ADSR_ops \<Rightarrow> ValueTreeState option \<Rightarrow> 'e Voice \<Rightarrow> 'e Voice" where
  "updateADSRParams A valueTreeState v =
     (case valueTreeState of
        None \<Rightarrow> v
      | Some vts \<Rightarrow>
          (let ps = \<lparr>attack = vts ''env_attack'', decay = vts ''env_decay'',
                     sustain = vts ''env_sustain'', release = vts ''env_release''\<rparr>
           in v\<lparr>adsrParams := ps, adsr := adsr_setParameters A ps (adsr v)\<rparr>))"

text \<open>
  The local \<^verbatim>\<open>pitchRatio\<close> of \<^verbatim>\<open>startNote\<close>:
  \<^verbatim>\<open>std::pow (2.0, (midiNoteNumber - currentSample->rootNote) / 12.0)\<close>.
\<close>

definition pitchRatio :: "int \<Rightarrow> int \<Rightarrow> real" where
  "pitchRatio midiNoteNumber sampleRoot = 2 powr (real_of_int (midiNoteNumber - sampleRoot) / 12)"

text \<open>\<^verbatim>\<open>startNote\<close>: the voice, the modulation matrix and the processor after the call.\<close>

definition startNote ::
  "'e ADSR_ops \<Rightarrow> ValueTreeState option \<Rightarrow> SampleEngine \<Rightarrow> int \<Rightarrow> real \<Rightarrow>
   'e Voice \<times> 'g ModulationMatrix \<times> Processor \<Rightarrow> 'e Voice \<times> 'g ModulationMatrix \<times> Processor" where
  "startNote A valueTreeState sampleEngine midiNoteNumber vel st =
     (case st of (v0, modulationMatrix, processor) \<Rightarrow>
        (let v1 = updateADSRParams A valueTreeState v0;
             v2 = v1\<lparr>currentSample := getSampleForNote sampleEngine midiNoteNumber\<rparr>
         in case currentSample v2 of
              None \<Rightarrow>
                (clearCurrentNote v2, modulationMatrix,
                 processor\<lparr>voiceActive := (voiceActive processor)(voiceIndex v2 := False)\<rparr>)
            | Some i \<Rightarrow>
                (if getNumSamples (audioData (samples sampleEngine ! i)) = 0 then
                   (clearCurrentNote v2, modulationMatrix,
                    processor\<lparr>voiceActive := (voiceActive processor)(voiceIndex v2 := False)\<rparr>)
                 else
                   (let sample = samples sampleEngine ! i;
                        ratio = pitchRatio midiNoteNumber (rootNote sample);
                        v3 = v2\<lparr>noteNumber := midiNoteNumber, velocity := vel,
                               positionIncrement :=
                                 ratio * sampleRate sample / currentSampleRate v2,
                               currentPosition := 0, loopingForward := True\<rparr>;
                        mm1 = setSourceValue Velocity (velocity v3) modulationMatrix;
                        mm2 = setSourceValue KeyTrack (real_of_int midiNoteNumber / 127) mm1
                    in (v3\<lparr>adsr := adsr_noteOn A (adsr v3)\<rparr>, mm2,
                        processor\<lparr>voiceActive := (voiceActive processor)(voiceIndex v3 := True)\<rparr>)))))"


text \<open>
  The statements that end a voice in \<^verbatim>\<open>renderNextBlock\<close>: \<^verbatim>\<open>clearCurrentNote()\<close> and the
  two stores into the processor's arrays.
\<close>

definition endVoice :: "'e Voice \<times> Processor \<Rightarrow> 'e Voice \<times> Processor" where
  "endVoice st =
     (case st of (v, processor) \<Rightarrow>
        (clearCurrentNote v,
         processor\<lparr>voiceActive := (voiceActive processor)(voiceIndex v := False),
                   voicePositions := (voicePositions processor)(voiceIndex v := 0)\<rparr>))"

text \<open>
  Reading through \<^verbatim>\<open>sampleData\<close> or \<^verbatim>\<open>sampleDataRight\<close>: a null pointer has no channel
  behind it, an index outside the channel is an error.
\<close>

definition getReadPointer :: "AudioBuffer \<Rightarrow> nat \<Rightarrow> real list option" where
  "getReadPointer b c = (if c < length (channelData b) then Some (channelData b ! c) else None)"

definition readChannel :: "real list option \<Rightarrow> int \<Rightarrow> error + real" where
  "readChannel p i = (case p of None \<Rightarrow> Inl NoSuchChannel | Some d \<Rightarrow> readAt d i)"

text \<open>
  The linear interpolation of one output sample: \<open>leftSample\<close> and \<open>rightSample\<close>
  before the envelope is applied.
\<close>

definition interpolate ::
  "real list option \<Rightarrow> real list option \<Rightarrow> int \<Rightarrow> real \<Rightarrow> error + (real \<times> real)" where
  "interpolate sampleData sampleDataRight sampleLength pos =
     (if pos \<ge> 0 \<and> pos < real_of_int sampleLength then
        (let index = truncate_int pos;
             fraction = pos - real_of_int index
         in if index < sampleLength - 1 then
              (case readChannel sampleData index of Inl e \<Rightarrow> Inl e | Inr a \<Rightarrow>
               case readChannel sampleData (index + 1) of Inl e \<Rightarrow> Inl e | Inr b \<Rightarrow>
                 (let leftSample = a * (1 - fraction) + b * fraction
                  in case sampleDataRight of
                       Some right \<Rightarrow>
                         (case readChannel sampleDataRight index of Inl e \<Rightarrow> Inl e | Inr c \<Rightarrow>
                          case readChannel sampleDataRight (index + 1) of Inl e \<Rightarrow> Inl e | Inr d \<Rightarrow>
                            Inr (leftSample, c * (1 - fraction) + d * fraction))
                     | None \<Rightarrow> Inr (leftSample, leftSample)))
            else
              (case readChannel sampleData index of Inl e \<Rightarrow> Inl e | Inr a \<Rightarrow>
               case sampleDataRight of
                 Some right \<Rightarrow>
                   (case readChannel sampleDataRight index of Inl e \<Rightarrow> Inl e | Inr c \<Rightarrow> Inr (a, c))
               | None \<Rightarrow> Inr (a, a)))
      else Inr (0, 0))"

text \<open>
  The \<^verbatim>\<open>switch (currentSample->loopMode)\<close> of the loop branch: the cursor and the direction
  flag after one step. A mode other than 0, 1 and 2 matches no case and changes nothing.
\<close>

definition loopStep :: "int \<Rightarrow> int \<Rightarrow> int \<Rightarrow> real \<Rightarrow> 'e Voice \<Rightarrow> 'e Voice" where
  "loopStep mode loopStartSample loopEndSample modifiedIncrement v =
     (if mode = 0 then
        (let v1 = v\<lparr>currentPosition := currentPosition v + modifiedIncrement\<rparr>
         in if currentPosition v1 \<ge> real_of_int loopEndSample
            then v1\<lparr>currentPosition :=
                      real_of_int loopStartSample + (currentPosition v1 - real_of_int loopEndSample)\<rparr>
            else v1)
      else if mode = 1 then
        (let v1 = v\<lparr>currentPosition := currentPosition v - modifiedIncrement\<rparr>
         in if currentPosition v1 \<le> real_of_int loopStartSample
            then v1\<lparr>currentPosition :=
                      real_of_int loopEndSample - (real_of_int loopStartSample - currentPosition v1)\<rparr>
            else v1)
      else if mode = 2 then
        (if loopingForward v then
           (let v1 = v\<lparr>currentPosition := currentPosition v + modifiedIncrement\<rparr>
            in if currentPosition v1 \<ge> real_of_int loopEndSample
               then v1\<lparr>currentPosition :=
                         real_of_int loopEndSample - (currentPosition v1 - real_of_int loopEndSample),
                       loopingForward := False\<rparr>
               else v1)
         else
           (let v1 = v\<lparr>currentPosition := currentPosition v - modifiedIncrement\<rparr>
            in if currentPosition v1 \<le> real_of_int loopStartSample
               then v1\<lparr>currentPosition :=
                         real_of_int loopStartSample + (real_of_int loopStartSample - currentPosition v1),
                       loopingForward := True\<rparr>
               else v1))
      else v)"

text \<open>
  The cursor advance of one output sample, from the test of \<^verbatim>\<open>loopEnabled\<close> to the end of
  the loop body. The boolean is \<open>True\<close> when the \<^verbatim>\<open>for\<close> loop is left by \<^verbatim>\<open>break\<close>.
\<close>

definition advance ::
  "'e ADSR_ops \<Rightarrow> SampleData \<Rightarrow> int \<Rightarrow> int \<Rightarrow> int \<Rightarrow> real \<Rightarrow>
   'e Voice \<times> Processor \<Rightarrow> bool \<times> 'e Voice \<times> Processor" where
  "advance A sample sampleLength loopStartSample loopEndSample modifiedIncrement st =
     (case st of (v, processor) \<Rightarrow>
        (if loopEnabled sample \<and> currentPosition v \<ge> real_of_int loopStartSample then
           (let v1 = loopStep (loopMode sample) loopStartSample loopEndSample modifiedIncrement v
            in if \<not> adsr_isActive A (adsr v1) then (True, endVoice (v1, processor))
               else (False, v1, processor))
         else
           (let v1 = v\<lparr>currentPosition := currentPosition v + modifiedIncrement\<rparr>
            in if currentPosition v1 \<ge> real_of_int sampleLength then
                 (True,
                  (if adsr_isActive A (adsr v1) then v1\<lparr>adsr := adsr_noteOff A (adsr v1)\<rparr> else v1),
                  processor)
               else if \<not> adsr_isActive A (adsr v1) then (True, endVoice (v1, processor))
               else (False, v1, processor))))"

text \<open>One pass of the body of the \<^verbatim>\<open>for\<close> loop, for the output sample \<open>sample\<close>.\<close>

definition renderSample ::
  "'e ADSR_ops \<Rightarrow> SampleData \<Rightarrow> real \<Rightarrow> int \<Rightarrow> int \<Rightarrow>
   'e Voice \<times> Processor \<times> OutputBuffer \<Rightarrow> error + (bool \<times> 'e Voice \<times> Processor \<times> OutputBuffer)" where
  "renderSample A smp pitchMod startSample sample st =
     (case st of (v, processor, outputBuffer) \<Rightarrow>
        (let sampleData = getReadPointer (audioData smp) 0;
             sampleDataRight =
               (if getNumChannels (audioData smp) > 1 then getReadPointer (audioData smp) 1 else None);
             sampleLength = getNumSamples (audioData smp);
             loopStartSample = truncate_int (loopStart smp * real_of_int sampleLength);
             loopEndSample = truncate_int (loopEnd smp * real_of_int sampleLength);
             v1 = v\<lparr>normalizedPosition := currentPosition v / real_of_int sampleLength\<rparr>;
             processor1 = processor\<lparr>voicePositions :=
                            (voicePositions processor)(voiceIndex v1 := normalizedPosition v1)\<rparr>
         in case interpolate sampleData sampleDataRight sampleLength (currentPosition v1) of
              Inl e \<Rightarrow> Inl e
            | Inr (leftSample, rightSample) \<Rightarrow>
                (case adsr_getNextSample A (adsr v1) of
                   (envelopeValue, adsr') \<Rightarrow>
                     (let v2 = v1\<lparr>adsr := adsr'\<rparr>;
                          leftSample' = leftSample * (envelopeValue * velocity v2);
                          rightSample' = rightSample * (envelopeValue * velocity v2);
                          out1 = (if outNumChannels outputBuffer > 0
                                  then addSample 0 (startSample + sample) leftSample' outputBuffer
                                  else outputBuffer);
                          out2 = (if outNumChannels out1 > 1
                                  then addSample 1 (startSample + sample) rightSample' out1
                                  else out1);
                          modifiedIncrement = positionIncrement v2 * 2 powr pitchMod
                      in case advance A smp sampleLength loopStartSample loopEndSample
                                modifiedIncrement (v2, processor1) of
                           (brk, v3, processor2) \<Rightarrow> Inr (brk, v3, processor2, out2)))))"

text \<open>The \<^verbatim>\<open>for\<close> loop: \<open>n\<close> passes are left, the next output sample is \<open>sample\<close>.\<close>

fun renderLoop ::
  "'e ADSR_ops \<Rightarrow> SampleData \<Rightarrow> real \<Rightarrow> int \<Rightarrow> nat \<Rightarrow> int \<Rightarrow>
   'e Voice \<times> Processor \<times> OutputBuffer \<Rightarrow> error + ('e Voice \<times> Processor \<times> OutputBuffer)" where
  "renderLoop A smp pitchMod startSample 0 sample st = Inr st"
| "renderLoop A smp pitchMod startSample (Suc n) sample st =
     (case renderSample A smp pitchMod startSample sample st of
        Inl e \<Rightarrow> Inl e
      | Inr (brk, st') \<Rightarrow>
          (if brk then Inr st' else renderLoop A smp pitchMod startSample n (sample + 1) st'))"

text \<open>
  \<^verbatim>\<open>renderNextBlock\<close>. The sample behind \<^verbatim>\<open>currentSample\<close> is looked up in the engine's
  vector; a pointer to a sample that is no longer there is the error \<open>DanglingSample\<close>.
  The pitch bias is read from the modulation matrix, which no statement of the loop
  changes.
\<close>

datatype render_error = DanglingSample | ReadError error

definition renderNextBlock ::
  "'e ADSR_ops \<Rightarrow> SampleEngine \<Rightarrow> 'g ModulationMatrix \<Rightarrow> int \<Rightarrow> int \<Rightarrow>
   'e Voice \<times> Processor \<times> OutputBuffer \<Rightarrow> render_error + ('e Voice \<times> Processor \<times> OutputBuffer)" where
  "renderNextBlock A sampleEngine modulationMatrix startSample numSamples st =
     (case st of (v, processor, outputBuffer) \<Rightarrow>
        (case currentSample v of
           None \<Rightarrow> (case endVoice (v, processor) of (v', p') \<Rightarrow> Inr (v', p', outputBuffer))
         | Some i \<Rightarrow>
             (if \<not> adsr_isActive A (adsr v) then
                (case endVoice (v, processor) of (v', p') \<Rightarrow> Inr (v', p', outputBuffer))
              else if i \<ge> length (samples sampleEngine) then Inl DanglingSample
              else
                (case renderLoop A (samples sampleEngine ! i)
                        (getModulationValue modulationMatrix Pitch) startSample (nat numSamples) 0 st of
                   Inl e \<Rightarrow> Inl (ReadError e)
                 | Inr st' \<Rightarrow> Inr st'))))"

text \<open>The two controller callbacks of the voice.\<close>

definition pitchWheelMoved :: "int \<Rightarrow> 'g ModulationMatrix \<Rightarrow> 'g ModulationMatrix" where
  "pitchWheelMoved newValue modulationMatrix =
     (let pitchBend = real_of_int (newValue - 8192) / 8192 * 2
      in setSourceValue PitchBend (pitchBend / 12) modulationMatrix)"

definition controllerMoved :: "int \<Rightarrow> int \<Rightarrow> 'g ModulationMatrix \<Rightarrow> 'g ModulationMatrix" where
  "controllerMoved controllerNumber newValue modulationMatrix =
     (let normalizedValue = real_of_int newValue / 127
      in if controllerNumber = 1 then setSourceValue ModWheel normalizedValue modulationMatrix
         else modulationMatrix)"

section \<open>An envelope and example data\<close>

text \<open>
  The theorems below hold for every choice of the envelope operations. To evaluate the
  voice on concrete inputs, \<open>juceADSR\<close> is one choice, written after the linear
  envelope of \<^verbatim>\<open>juce::ADSR\<close>: rates are per sample, a stage with a non-positive rate
  is skipped, and \<^verbatim>\<open>noteOff\<close> starts the release from the current level.
\<close>

datatype ADSR_State = Idle | Attack | Decay | Sustain | Release

record ADSR =
  state :: ADSR_State
  parameters :: ADSR_Parameters
  adsrSampleRate :: real
  envelopeVal :: real
  attackRate :: real
  decayRate :: real
  releaseRate :: real

definition getRate :: "real \<Rightarrow> real \<Rightarrow> real \<Rightarrow> real" where
  "getRate distance timeInSeconds sr =
     (if timeInSeconds > 0 then distance / (timeInSeconds * sr) else - 1)"

definition ADSR_reset :: "ADSR \<Rightarrow> ADSR" where
  "ADSR_reset a = a\<lparr>envelopeVal := 0, state := Idle\<rparr>"

definition goToNextState :: "ADSR \<Rightarrow> ADSR" where
  "goToNextState a =
     (if state a = Attack then a\<lparr>state := (if decayRate a > 0 then Decay else Sustain)\<rparr>
      else if state a = Decay then a\<lparr>state := Sustain\<rparr>
      else if state a = Release then ADSR_reset a
      else a)"

definition ADSR_setParameters :: "ADSR_Parameters \<Rightarrow> ADSR \<Rightarrow> ADSR" where
  "ADSR_setParameters newParameters a =
     (let a1 = a\<lparr>parameters := newParameters,
                 attackRate := getRate 1 (attack newParameters) (adsrSampleRate a),
                 decayRate := getRate (1 - sustain newParameters) (decay newParameters) (adsrSampleRate a),
                 releaseRate := getRate (sustain newParameters) (release newParameters) (adsrSampleRate a)\<rparr>
      in if (state a1 = Attack \<and> attackRate a1 \<le> 0)
            \<or> (state a1 = Decay \<and> (decayRate a1 \<le> 0 \<or> envelopeVal a1 \<le> sustain newParameters))
            \<or> (state a1 = Release \<and> releaseRate a1 \<le> 0)
         then goToNextState a1 else a1)"

definition ADSR_noteOn :: "ADSR \<Rightarrow> ADSR" where
  "ADSR_noteOn a =
     (if attackRate a > 0 then a\<lparr>state := Attack\<rparr>
      else if decayRate a > 0 then a\<lparr>envelopeVal := 1, state := Decay\<rparr>
      else a\<lparr>envelopeVal := sustain (parameters a), state := Sustain\<rparr>)"

definition ADSR_noteOff :: "ADSR \<Rightarrow> ADSR" where
  "ADSR_noteOff a =
     (if state a \<noteq> Idle then
        (if release (parameters a) > 0
         then a\<lparr>releaseRate := envelopeVal a / (release (parameters a) * adsrSampleRate a),
                state := Release\<rparr>
         else ADSR_reset a)
      else a)"

definition ADSR_isActive :: "ADSR \<Rightarrow> bool" where
  "ADSR_isActive a = (state a \<noteq> Idle)"

definition ADSR_getNextSample :: "ADSR \<Rightarrow> real \<times> ADSR" where
  "ADSR_getNextSample a =
     (if state a = Idle then (0, a)
      else
        (let a' =
           (if state a = Attack then
              (let a1 = a\<lparr>envelopeVal := envelopeVal a + attackRate a\<rparr>
               in if envelopeVal a1 \<ge> 1 then goToNextState (a1\<lparr>envelopeVal := 1\<rparr>) else a1)
            else if state a = Decay then
              (let a1 = a\<lparr>envelopeVal := envelopeVal a - decayRate a\<rparr>
               in if envelopeVal a1 \<le> sustain (parameters a1)
                  then goToNextState (a1\<lparr>envelopeVal := sustain (parameters a1)\<rparr>) else a1)
            else if state a = Sustain then a\<lparr>envelopeVal := sustain (parameters a)\<rparr>
            else
              (let a1 = a\<lparr>envelopeVal := envelopeVal a - releaseRate a\<rparr>
               in if envelopeVal a1 \<le> 0 then goToNextState a1 else a1))
         in (envelopeVal a', a')))"

definition juceADSR :: "ADSR ADSR_ops" where
  "juceADSR =
     \<lparr>adsr_setParameters = ADSR_setParameters, adsr_noteOn = ADSR_noteOn,
      adsr_noteOff = ADSR_noteOff, adsr_isActive = ADSR_isActive,
      adsr_getNextSample = ADSR_getNextSample\<rparr>"

text \<open>The parameters the voice's constructor sets, and an envelope that holds a note.\<close>

definition voiceADSRParams :: ADSR_Parameters where
  "voiceADSRParams = \<lparr>attack = 0.01, decay = 0.1, sustain = 0.8, release = 0.5\<rparr>"

definition newADSR :: ADSR where
  "newADSR = ADSR_setParameters voiceADSRParams
     \<lparr>state = Idle, parameters = \<lparr>attack = 0.1, decay = 0.1, sustain = 1, release = 0.1\<rparr>,
      adsrSampleRate = 44100, envelopeVal = 0, attackRate = 0, decayRate = 0, releaseRate = 0\<rparr>"

definition sustainingADSR :: ADSR where
  "sustainingADSR = newADSR\<lparr>state := Sustain, envelopeVal := 0.8\<rparr>"

text \<open>A file, a reader that decodes eight mono samples, and libraries of samples.\<close>

definition exampleFile :: File where
  "exampleFile = \<lparr>fullPathName = ''/samples/piano.wav'', fileNameWithoutExtension = ''piano''\<rparr>"

definition exampleReader :: AudioFormatReader where
  "exampleReader =
     \<lparr>readerSampleRate = 48000, readerNumChannels = 1, lengthInSamples = 8,
      decoded = (\<lambda>c i. real i / 8)\<rparr>"

definition exampleEngine :: SampleEngine where
  "exampleEngine =
     \<lparr>samples = [defaultSampleData\<lparr>lowestNote := 0, highestNote := 40\<rparr>,
                 defaultSampleData\<lparr>lowestNote := 60, highestNote := 72\<rparr>,
                 defaultSampleData\<lparr>lowestNote := 70, highestNote := 127\<rparr>]\<rparr>"

definition exampleBuffer :: AudioBuffer where
  "exampleBuffer = \<lparr>channelData = [[0, 1, 2, 3, 4, 5, 6, 7]], bufferSize = 8\<rparr>"

text \<open>Eight samples with the default loop bounds: the loop runs from index 2 to index 6.\<close>

definition loopedSample :: "int \<Rightarrow> SampleData" where
  "loopedSample mode =
     defaultSampleData\<lparr>audioData := exampleBuffer, loopEnabled := True, loopMode := mode\<rparr>"

text \<open>A mono buffer of \<open>n\<close> samples, the sample at index \<open>i\<close> being \<open>i\<close>.\<close>

definition rampBuffer :: "nat \<Rightarrow> AudioBuffer" where
  "rampBuffer n = \<lparr>channelData = [map real [0..<n]], bufferSize = n\<rparr>"

text \<open>A looped sample over a mono buffer of \<open>n\<close> samples, with the default loop bounds.\<close>

definition rampSample :: "nat \<Rightarrow> int \<Rightarrow> SampleData" where
  "rampSample n mode =
     defaultSampleData\<lparr>audioData := rampBuffer n, loopEnabled := True, loopMode := mode\<rparr>"

definition exampleVoice :: "ADSR Voice" where
  "exampleVoice =
     \<lparr>currentlyPlayingNote = 60, currentSampleRate = 44100, normalizedPosition = 0,
      voiceIndex = 0, currentSample = Some 0, currentPosition = 0, positionIncrement = 1,
      noteNumber = 60, velocity = 1, loopingForward = True, adsr = sustainingADSR,
      adsrParams = voiceADSRParams\<rparr>"

definition idleVoice :: "ADSR Voice" where
  "idleVoice =
     \<lparr>currentlyPlayingNote = - 1, currentSampleRate = 44100, normalizedPosition = 0,
      voiceIndex = 0, currentSample = None, currentPosition = 0, positionIncrement = 0,
      noteNumber = 0, velocity = 0, loopingForward = True, adsr = newADSR,
      adsrParams = voiceADSRParams\<rparr>"

definition exampleProcessor :: Processor where
  "exampleProcessor = \<lparr>voicePositions = (\<lambda>i. 0), voiceActive = (\<lambda>i. False)\<rparr>"

definition silentOutput :: OutputBuffer where
  "silentOutput = \<lparr>outNumChannels = 2, outSamples = (\<lambda>c i. 0)\<rparr>"

text \<open>
  A generator for \<^verbatim>\<open>nextFloat\<close> over a counter: the values 0.1, 0.3, 0.5, 0.7, 0.9 in
  turn.
\<close>

definition exampleNextFloat :: "nat \<Rightarrow> real \<times> nat" where
  "exampleNextFloat g = ((2 * real (g mod 5) + 1) / 10, g + 1)"

definition exampleMatrix :: "nat ModulationMatrix" where
  "exampleMatrix =
     \<lparr>lfos = (newLFO 0, newLFO 0, newLFO 0), sourceValues = Map.empty,
      destinationValues = Map.empty\<rparr>"


section \<open>Note lookup\<close>

lemma firstInRange_None:
  "firstInRange n ss = None \<longleftrightarrow> (\<forall>j<length ss. \<not> inNoteRange (ss ! j) n)"
proof (induction ss)
  case Nil
  show ?case by simp
next
  case (Cons s ss)
  show ?case
  proof (cases "inNoteRange s n")
    case True
    then show ?thesis by auto
  next
    case False
    have "(\<forall>j<length (s # ss). \<not> inNoteRange ((s # ss) ! j) n)
            \<longleftrightarrow> (\<forall>j<length ss. \<not> inNoteRange (ss ! j) n)"
      using False by (auto simp: nth_Cons split: nat.splits)
    with False Cons show ?thesis by simp
  qed
qed

lemma firstInRange_Some:
  "firstInRange n ss = Some i \<Longrightarrow>
     i < length ss \<and> inNoteRange (ss ! i) n \<and> (\<forall>j<i. \<not> inNoteRange (ss ! j) n)"
proof (induction ss arbitrary: i)
  case Nil
  then show ?case by simp
next
  case (Cons s ss)
  show ?case
  proof (cases "inNoteRange s n")
    case True
    with Cons.prems show ?thesis by simp
  next
    case False
    with Cons.prems obtain k where k: "firstInRange n ss = Some k" and i: "i = Suc k"
      by auto
    from Cons.IH [OF k] False i show ?thesis
      by (auto simp: nth_Cons split: nat.splits)
  qed
qed

text \<open>
  Claim C4. For every note number and every state of the library, \<open>getSampleForNote\<close>
  returns the first sample, in loading order, whose inclusive range from \<open>lowestNote\<close>
  to \<open>highestNote\<close> contains the note; when no range contains it and the library is not
  empty it returns the first-loaded sample; it returns the null pointer exactly when the
  library is empty.
\<close>

theorem getSampleForNote_first_match:
  "(\<forall>i. getSampleForNote e n = Some i \<longleftrightarrow>
        (i < length (samples e) \<and> inNoteRange (samples e ! i) n \<and>
           (\<forall>j<i. \<not> inNoteRange (samples e ! j) n))
      \<or> (i = 0 \<and> samples e \<noteq> [] \<and> (\<forall>j<length (samples e). \<not> inNoteRange (samples e ! j) n)))
   \<and> (getSampleForNote e n = None \<longleftrightarrow> samples e = [])"
proof (cases "firstInRange n (samples e)")
  case None
  then have no: "\<forall>j<length (samples e). \<not> inNoteRange (samples e ! j) n"
    by (simp add: firstInRange_None)
  from None have g: "getSampleForNote e n = (if samples e = [] then None else Some 0)"
    by (simp add: getSampleForNote_def)
  show ?thesis
  proof (cases "samples e = []")
    case True
    with g show ?thesis by simp
  next
    case False
    with g no show ?thesis by auto
  qed
next
  case (Some k)
  from firstInRange_Some [OF Some]
  have k: "k < length (samples e)" "inNoteRange (samples e ! k) n"
    "\<forall>j<k. \<not> inNoteRange (samples e ! j) n"
    by simp_all
  from Some have g: "getSampleForNote e n = Some k"
    by (simp add: getSampleForNote_def)
  have ne: "samples e \<noteq> []" using k(1) by auto
  have uniq: "i = k"
    if "i < length (samples e)" "inNoteRange (samples e ! i) n"
       "\<forall>j<i. \<not> inNoteRange (samples e ! j) n" for i
  proof (rule ccontr)
    assume "i \<noteq> k"
    then consider "i < k" | "k < i" by linarith
    then show False
      using that k by cases auto
  qed
  have "getSampleForNote e n = Some i \<longleftrightarrow>
        (i < length (samples e) \<and> inNoteRange (samples e ! i) n \<and>
           (\<forall>j<i. \<not> inNoteRange (samples e ! j) n))
      \<or> (i = 0 \<and> samples e \<noteq> [] \<and> (\<forall>j<length (samples e). \<not> inNoteRange (samples e ! j) n))"
    for i
  proof
    assume "getSampleForNote e n = Some i"
    with g have "i = k" by simp
    with k show "(i < length (samples e) \<and> inNoteRange (samples e ! i) n \<and>
           (\<forall>j<i. \<not> inNoteRange (samples e ! j) n))
      \<or> (i = 0 \<and> samples e \<noteq> [] \<and> (\<forall>j<length (samples e). \<not> inNoteRange (samples e ! j) n))"
      by simp
  next
    assume "(i < length (samples e) \<and> inNoteRange (samples e ! i) n \<and>
           (\<forall>j<i. \<not> inNoteRange (samples e ! j) n))
      \<or> (i = 0 \<and> samples e \<noteq> [] \<and> (\<forall>j<length (samples e). \<not> inNoteRange (samples e ! j) n))"
    then have "i = k"
    proof
      assume "i < length (samples e) \<and> inNoteRange (samples e ! i) n \<and>
           (\<forall>j<i. \<not> inNoteRange (samples e ! j) n)"
      then show ?thesis using uniq by blast
    next
      assume "i = 0 \<and> samples e \<noteq> [] \<and> (\<forall>j<length (samples e). \<not> inNoteRange (samples e ! j) n)"
      with k(1,2) show ?thesis by blast
    qed
    with g show "getSampleForNote e n = Some i" by simp
  qed
  moreover have "getSampleForNote e n = None \<longleftrightarrow> samples e = []"
    using g ne by simp
  ultimately show ?thesis by blast
qed

theorem getSampleForNote_first_match_witness:
  "getSampleForNote exampleEngine 71 = Some 1
   \<and> inNoteRange (samples exampleEngine ! 1) 71
   \<and> inNoteRange (samples exampleEngine ! 2) 71
   \<and> \<not> inNoteRange (samples exampleEngine ! 0) 71
   \<and> getSampleForNote exampleEngine 50 = Some 0
   \<and> \<not> inNoteRange (samples exampleEngine ! 0) 50
   \<and> getSampleForNote \<lparr>samples = []\<rparr> 50 = None"
  using getSampleForNote_first_match [of exampleEngine 71]
    getSampleForNote_first_match [of exampleEngine 50]
    getSampleForNote_first_match [of "\<lparr>samples = []\<rparr>" 50]
  by (simp add: exampleEngine_def getSampleForNote_def inNoteRange_def defaultSampleData_def)

section \<open>Loading a sample\<close>

lemma buffer_ok_readInto: "buffer_ok (readInto reader)"
  by (simp add: buffer_ok_def readInto_def Let_def list_all_iff)

text \<open>
  Claim C9, as stated, asks that a failed load is reported to the caller by a boolean or
  optional result. \<open>loadSample\<close> returns \<^verbatim>\<open>void\<close>: a load that fails and a load that
  succeeds return the same value, and differ only in the library they leave behind.
\<close>

theorem loadSample_void_counterexample:
  "fst (loadSample (\<lambda>f. None) exampleFile 60 \<lparr>samples = []\<rparr>)
     = fst (loadSample (\<lambda>f. Some exampleReader) exampleFile 60 \<lparr>samples = []\<rparr>)
   \<and> samples (snd (loadSample (\<lambda>f. None) exampleFile 60 \<lparr>samples = []\<rparr>)) = []
   \<and> length (samples (snd (loadSample (\<lambda>f. Some exampleReader) exampleFile 60 \<lparr>samples = []\<rparr>))) = 1"
  by (simp add: loadSample_def)

text \<open>
  Claim C9, amended. When no reader can be created for the file, \<open>loadSample\<close> leaves
  the engine as it was and returns nothing. When a reader is created, exactly one sample
  is appended after the existing ones, with loop bounds 0.25 and 0.75, note range 0 to
  127, the given root note, looping disabled in mode 0, the reader's sample rate and a
  well-formed buffer of the decoded audio. The root note is 60 when it is not given.
\<close>

theorem loadSample_appends_on_success_only:
  "(createReaderFor file = None \<longrightarrow> loadSample createReaderFor file rt engine = ((), engine))
   \<and> (\<forall>reader. createReaderFor file = Some reader \<longrightarrow>
        (\<exists>s. loadSample createReaderFor file rt engine
                = ((), engine\<lparr>samples := samples engine @ [s]\<rparr>)
             \<and> loopStart s = 0.25 \<and> loopEnd s = 0.75 \<and> lowestNote s = 0 \<and> highestNote s = 127
             \<and> rootNote s = rt \<and> \<not> loopEnabled s \<and> loopMode s = 0
             \<and> sampleRate s = readerSampleRate reader \<and> audioData s = readInto reader
             \<and> buffer_ok (audioData s)))
   \<and> loadSample_default createReaderFor file engine = loadSample createReaderFor file 60 engine"
proof (intro conjI allI impI)
  assume "createReaderFor file = None"
  then show "loadSample createReaderFor file rt engine = ((), engine)"
    by (simp add: loadSample_def)
next
  fix reader
  assume r: "createReaderFor file = Some reader"
  define s where "s = defaultSampleData
       \<lparr>name := fileNameWithoutExtension file, filePath := fullPathName file,
        sampleRate := readerSampleRate reader, rootNote := rt, audioData := readInto reader\<rparr>"
  have "loadSample createReaderFor file rt engine = ((), engine\<lparr>samples := samples engine @ [s]\<rparr>)"
    using r by (simp add: loadSample_def s_def)
  moreover have "loopStart s = 0.25 \<and> loopEnd s = 0.75 \<and> lowestNote s = 0 \<and> highestNote s = 127
             \<and> rootNote s = rt \<and> \<not> loopEnabled s \<and> loopMode s = 0
             \<and> sampleRate s = readerSampleRate reader \<and> audioData s = readInto reader
             \<and> buffer_ok (audioData s)"
    by (simp add: s_def defaultSampleData_def buffer_ok_readInto)
  ultimately show "\<exists>s. loadSample createReaderFor file rt engine
                = ((), engine\<lparr>samples := samples engine @ [s]\<rparr>)
             \<and> loopStart s = 0.25 \<and> loopEnd s = 0.75 \<and> lowestNote s = 0 \<and> highestNote s = 127
             \<and> rootNote s = rt \<and> \<not> loopEnabled s \<and> loopMode s = 0
             \<and> sampleRate s = readerSampleRate reader \<and> audioData s = readInto reader
             \<and> buffer_ok (audioData s)"
    by blast
next
  show "loadSample_default createReaderFor file engine = loadSample createReaderFor file 60 engine"
    by (simp add: loadSample_default_def)
qed

theorem loadSample_appends_on_success_only_witness:
  "loadSample (\<lambda>f. None) exampleFile 60 \<lparr>samples = [defaultSampleData]\<rparr>
     = ((), \<lparr>samples = [defaultSampleData]\<rparr>)
   \<and> map rootNote (samples (snd (loadSample_default (\<lambda>f. Some exampleReader) exampleFile
         \<lparr>samples = [defaultSampleData\<lparr>rootNote := 48\<rparr>]\<rparr>))) = [48, 60]
   \<and> map loopStart (samples (snd (loadSample (\<lambda>f. Some exampleReader) exampleFile 72
         \<lparr>samples = []\<rparr>))) = [0.25]"
  using loadSample_appends_on_success_only [of "\<lambda>f. None" exampleFile 60 "\<lparr>samples = [defaultSampleData]\<rparr>"]
    loadSample_appends_on_success_only [of "\<lambda>f. Some exampleReader" exampleFile 60
      "\<lparr>samples = [defaultSampleData\<lparr>rootNote := 48\<rparr>]\<rparr>"]
    loadSample_appends_on_success_only [of "\<lambda>f. Some exampleReader" exampleFile 72 "\<lparr>samples = []\<rparr>"]
  by (auto simp: defaultSampleData_def)

section \<open>Starting a note\<close>

lemma pitchRatio_octaves: "pitchRatio 72 60 = 2" "pitchRatio 48 60 = 1 / 2"
  by (simp_all add: pitchRatio_def powr_minus_divide)

lemma getSampleForNote_in_range:
  "getSampleForNote engine n = Some i \<Longrightarrow> i < length (samples engine)"
  by (auto simp: getSampleForNote_def split: option.splits if_splits dest: firstInRange_Some)

text \<open>
  Claim C6. For a note-on that resolves a sample with audio in it, \<open>startNote\<close> sets the
  cursor increment to the pitch ratio times the sample's rate over the playback rate,
  where the pitch ratio is 2 to the power of the note's distance from the root note in
  twelfths; note 72 against root 60 gives the ratio 2, note 48 gives one half. The cursor
  starts at 0 in the forward direction.
\<close>

theorem startNote_pitch:
  assumes "getSampleForNote engine note = Some i"
    and "getNumSamples (audioData (samples engine ! i)) \<noteq> 0"
    and "startNote A vts engine note vel (v, mm, p) = (v', mm', p')"
  shows "positionIncrement v'
           = pitchRatio note (rootNote (samples engine ! i)) * sampleRate (samples engine ! i)
               / currentSampleRate v
       \<and> pitchRatio note (rootNote (samples engine ! i))
           = 2 powr (real_of_int (note - rootNote (samples engine ! i)) / 12)
       \<and> pitchRatio 72 60 = 2 \<and> pitchRatio 48 60 = 0.5
       \<and> currentSample v' = Some i \<and> currentPosition v' = 0 \<and> loopingForward v'"
proof -
  have cs: "currentSampleRate (updateADSRParams A vts v) = currentSampleRate v"
    by (simp add: updateADSRParams_def Let_def split: option.splits)
  from assms show ?thesis
    by (auto simp: startNote_def Let_def cs pitchRatio_octaves pitchRatio_def)
qed

theorem startNote_pitch_witness:
  "getSampleForNote \<lparr>samples = [loopedSample 0]\<rparr> 72 = Some 0
   \<and> getNumSamples (audioData (samples \<lparr>samples = [loopedSample 0]\<rparr> ! 0)) \<noteq> 0
   \<and> positionIncrement (fst (startNote juceADSR None \<lparr>samples = [loopedSample 0]\<rparr> 72 1
         (idleVoice, exampleMatrix, exampleProcessor))) = 2"
proof -
  let ?E = "\<lparr>samples = [loopedSample 0]\<rparr>"
  let ?r = "startNote juceADSR None ?E 72 1 (idleVoice, exampleMatrix, exampleProcessor)"
  have h1: "getSampleForNote ?E 72 = Some 0"
    by (simp add: getSampleForNote_def inNoteRange_def loopedSample_def defaultSampleData_def)
  have h2: "getNumSamples (audioData (samples ?E ! 0)) \<noteq> 0"
    by (simp add: getNumSamples_def loopedSample_def exampleBuffer_def)
  have h3: "?r = (fst ?r, fst (snd ?r), snd (snd ?r))"
    by simp
  from startNote_pitch [OF h1 h2 h3] h1 h2 show ?thesis
    by (simp add: pitchRatio_def loopedSample_def defaultSampleData_def idleVoice_def)
qed

section \<open>Filter settings\<close>

text \<open>
  Claim C8. With a modulation matrix attached, the cutoff that \<open>FilterEngine\<close> sets
  before it runs the filter is the base cutoff plus the bias times the base cutoff,
  limited to the range from 20 to 20000; the resonance parameter is set as it is.
\<close>

theorem configureFilter_cutoff:
  "cutoffFrequency (configureFilter vts (Some matrix) flt)
     = max 20 (min 20000 (vts ''filter_cutoff''
         + getModulationValue matrix FilterCutoff * vts ''filter_cutoff''))
   \<and> resonance (configureFilter vts (Some matrix) flt) = vts ''filter_resonance''
   \<and> FilterEngine_processBlock process vts (Some matrix) flt buffer
       = process (flt\<lparr>cutoffFrequency := jlimit 20 20000 (vts ''filter_cutoff''
              + getModulationValue matrix FilterCutoff * vts ''filter_cutoff''),
            resonance := vts ''filter_resonance''\<rparr>) buffer"
  by (simp add: configureFilter_def FilterEngine_processBlock_def setCutoffFrequency_def
      setResonance_def jlimit_def Let_def max_def min_def)

section \<open>Modulation per block\<close>







section \<open>The random waveform\<close>

lemma random_getNextSample:
  assumes "waveform lfo = 4" "0 \<le> phase lfo" "phase lfo < 1"
    "0 \<le> frequency lfo" "frequency lfo < lfoSampleRate lfo"
  shows "getNextSample nf lfo =
           (randomValue lfo,
            lfo\<lparr>phase := phase lfo + frequency lfo / lfoSampleRate lfo
                    - (if wrapsNow lfo then 1 else 0)\<rparr>)"
  using assms by (simp add: getNextSample_def waveformOutput_def wrapsNow_def Let_def)

lemma random_phase_next:
  assumes "0 \<le> phase lfo" "phase lfo < 1"
    "0 \<le> frequency lfo" "frequency lfo < lfoSampleRate lfo"
  shows "0 \<le> phase lfo + frequency lfo / lfoSampleRate lfo - (if wrapsNow lfo then 1 else 0)"
    and "phase lfo + frequency lfo / lfoSampleRate lfo - (if wrapsNow lfo then 1 else 0) < 1"
proof -
  have sr: "0 < lfoSampleRate lfo" using assms by linarith
  have i0: "0 \<le> frequency lfo / lfoSampleRate lfo" using assms sr by simp
  have i1: "frequency lfo / lfoSampleRate lfo < 1" using assms sr by simp
  show "0 \<le> phase lfo + frequency lfo / lfoSampleRate lfo - (if wrapsNow lfo then 1 else 0)"
    using assms(1) i0 by (simp add: wrapsNow_def)
  show "phase lfo + frequency lfo / lfoSampleRate lfo - (if wrapsNow lfo then 1 else 0) < 1"
    using assms(2) i1 by (simp add: wrapsNow_def)
qed

text \<open>
  Claim C1 says that the random waveform draws a new value each time the phase wraps.
  The code tests \<^verbatim>\<open>phase >= 1.0f\<close> at the start of a call, after the previous call has
  already reduced a phase that reached 1. For a rate below the sample rate and a phase
  that starts in the unit interval, the test never succeeds: over any run of calls every
  output is the value \<open>randomValue\<close> had at the start, the generator is never asked for
  a number, and yet the phase wraps as often as the integer part of the accumulated phase
  says.
\<close>

theorem random_waveform_never_redraws:
  assumes "waveform lfo = 4" "0 \<le> phase lfo" "phase lfo < 1"
    "0 \<le> frequency lfo" "frequency lfo < lfoSampleRate lfo"
  shows "lfoSamples nf n lfo = replicate n (randomValue lfo)
       \<and> randomValue (lfoAfter nf n lfo) = randomValue lfo
       \<and> random_gen (lfoAfter nf n lfo) = random_gen lfo
       \<and> int (phaseWraps nf n lfo) = \<lfloor>phase lfo + real n * (frequency lfo / lfoSampleRate lfo)\<rfloor>"
  using assms
proof (induction n arbitrary: lfo)
  case 0
  then have "\<lfloor>phase lfo\<rfloor> = 0" by (simp add: floor_eq_iff)
  then show ?case by simp
next
  case (Suc n)
  let ?inc = "frequency lfo / lfoSampleRate lfo"
  let ?w = "if wrapsNow lfo then 1 else (0::real)"
  define lfo' where "lfo' = lfo\<lparr>phase := phase lfo + ?inc - ?w\<rparr>"
  have g: "getNextSample nf lfo = (randomValue lfo, lfo')"
    unfolding lfo'_def using Suc.prems by (rule random_getNextSample)
  have p: "0 \<le> phase lfo'" "phase lfo' < 1"
    using random_phase_next [OF Suc.prems(2-5)] by (simp_all add: lfo'_def)
  have same: "waveform lfo' = 4" "0 \<le> frequency lfo'" "frequency lfo' < lfoSampleRate lfo'"
    "randomValue lfo' = randomValue lfo" "random_gen lfo' = random_gen lfo"
    "frequency lfo' / lfoSampleRate lfo' = ?inc"
    using Suc.prems by (simp_all add: lfo'_def)
  note IH = Suc.IH [OF same(1) p same(2,3)]
  define inc where "inc = frequency lfo / lfoSampleRate lfo"
  have ph: "phase lfo' = phase lfo + inc - ?w"
    by (simp add: lfo'_def inc_def)
  have fl: "\<lfloor>phase lfo + real (Suc n) * inc\<rfloor>
              = (if wrapsNow lfo then 1 else 0) + \<lfloor>phase lfo' + real n * inc\<rfloor>"
  proof (cases "wrapsNow lfo")
    case True
    have "phase lfo + real (Suc n) * inc = (phase lfo' + real n * inc) + of_int 1"
      using True by (simp add: ph algebra_simps)
    then have "\<lfloor>phase lfo + real (Suc n) * inc\<rfloor> = \<lfloor>phase lfo' + real n * inc\<rfloor> + 1"
      by (simp only: floor_add_int)
    with True show ?thesis by simp
  next
    case False
    have "phase lfo + real (Suc n) * inc = phase lfo' + real n * inc"
      using False by (simp add: ph algebra_simps)
    with False show ?thesis by simp
  qed
  show ?case
    using IH g fl by (simp add: same inc_def)
qed

theorem random_waveform_never_redraws_witness:
  "waveform ((newLFO (0::nat))\<lparr>waveform := 4, frequency := 20\<rparr>) = 4
   \<and> phase ((newLFO (0::nat))\<lparr>waveform := 4, frequency := 20\<rparr>) = 0
   \<and> frequency ((newLFO (0::nat))\<lparr>waveform := 4, frequency := 20\<rparr>) = 20
   \<and> lfoSampleRate ((newLFO (0::nat))\<lparr>waveform := 4, frequency := 20\<rparr>) = 44100
   \<and> phaseWraps exampleNextFloat 4410 ((newLFO (0::nat))\<lparr>waveform := 4, frequency := 20\<rparr>) = 2
   \<and> lfoSamples exampleNextFloat 4410 ((newLFO (0::nat))\<lparr>waveform := 4, frequency := 20\<rparr>)
       = replicate 4410 0
   \<and> random_gen (lfoAfter exampleNextFloat 4410 ((newLFO (0::nat))\<lparr>waveform := 4, frequency := 20\<rparr>)) = 0"
proof -
  let ?l = "(newLFO (0::nat))\<lparr>waveform := 4, frequency := 20\<rparr>"
  have h: "waveform ?l = 4" "0 \<le> phase ?l" "phase ?l < 1" "0 \<le> frequency ?l"
    "frequency ?l < lfoSampleRate ?l"
    by (simp_all add: newLFO_def)
  have "int (phaseWraps exampleNextFloat 4410 ?l) = 2"
    using random_waveform_never_redraws [OF h, of exampleNextFloat 4410]
    by (simp add: newLFO_def)
  then have "phaseWraps exampleNextFloat 4410 ?l = 2" by linarith
  then show ?thesis
    using random_waveform_never_redraws [OF h, of exampleNextFloat 4410]
    by (simp add: newLFO_def)
qed

section \<open>Stopping a note\<close>

lemmas eval_defs =
  juceADSR_def ADSR_noteOff_def ADSR_isActive_def ADSR_getNextSample_def ADSR_reset_def
  goToNextState_def exampleVoice_def sustainingADSR_def newADSR_def ADSR_setParameters_def
  voiceADSRParams_def getRate_def clearCurrentNote_def Let_def renderNextBlock_def
  exampleMatrix_def getModulationValue_def loopedSample_def rampSample_def rampBuffer_def
  defaultSampleData_def exampleBuffer_def renderSample_def getReadPointer_def
  getNumChannels_def getNumSamples_def truncate_int_def interpolate_def readChannel_def
  readAt_def silentOutput_def addSample_def advance_def loopStep_def exampleProcessor_def
  endVoice_def





section \<open>Loop handling\<close>

lemma endVoice_voice:
  "currentPosition (fst (endVoice (v, p))) = currentPosition v"
  "loopingForward (fst (endVoice (v, p))) = loopingForward v"
  "positionIncrement (fst (endVoice (v, p))) = positionIncrement v"
  by (simp_all add: endVoice_def clearCurrentNote_def)














section \<open>Reading the sample buffer\<close>

lemma truncate_int_range:
  assumes "0 \<le> pos" "pos < real_of_int len"
  shows "0 \<le> truncate_int pos" "truncate_int pos < len"
  using assms by (simp_all add: truncate_int_def floor_less_iff)

lemma readChannel_in_range:
  assumes "buffer_ok b" "0 \<le> i" "i < getNumSamples b"
  shows "readChannel (getReadPointer b c) i \<noteq> Inl (IndexOutOfRange j)"
proof (cases "c < length (channelData b)")
  case True
  then have "length (channelData b ! c) = bufferSize b"
    using assms(1) by (simp add: buffer_ok_def list_all_length)
  with True assms(2,3) show ?thesis
    by (simp add: readChannel_def getReadPointer_def readAt_def getNumSamples_def)
next
  case False
  then show ?thesis by (simp add: readChannel_def getReadPointer_def)
qed

lemma readChannel_None: "readChannel None i \<noteq> Inl (IndexOutOfRange j)"
  by (simp add: readChannel_def)

lemma interpolate_outside:
  assumes "pos < 0 \<or> pos \<ge> real_of_int len"
  shows "interpolate sd sdr len pos = Inr (0, 0)"
  using assms by (auto simp: interpolate_def)

lemma interpolate_in_range:
  assumes "buffer_ok b"
  shows "interpolate (getReadPointer b 0)
           (if getNumChannels b > 1 then getReadPointer b 1 else None)
           (getNumSamples b) pos \<noteq> Inl (IndexOutOfRange j)"
proof (cases "pos \<ge> 0 \<and> pos < real_of_int (getNumSamples b)")
  case False
  then have "pos < 0 \<or> pos \<ge> real_of_int (getNumSamples b)" by linarith
  then show ?thesis by (simp only: interpolate_outside) simp
next
  case True
  define index where "index = truncate_int pos"
  have i: "0 \<le> index" "index < getNumSamples b"
    using truncate_int_range [of pos "getNumSamples b"] True by (simp_all add: index_def)
  have r0: "readChannel (getReadPointer b c) index \<noteq> Inl (IndexOutOfRange j)" for c
    using readChannel_in_range [OF assms i] .
  have r1: "index < getNumSamples b - 1 \<Longrightarrow>
      readChannel (getReadPointer b c) (index + 1) \<noteq> Inl (IndexOutOfRange j)" for c
    using readChannel_in_range [OF assms, of "index + 1"] i by simp
  have r0': "getReadPointer b c = Some d \<Longrightarrow> readChannel (Some d) index \<noteq> Inl (IndexOutOfRange j)"
    for c d using r0 [of c] by simp
  have r1': "getReadPointer b c = Some d \<Longrightarrow> index < getNumSamples b - 1 \<Longrightarrow>
      readChannel (Some d) (index + 1) \<noteq> Inl (IndexOutOfRange j)" for c d
    using r1 [of c] by simp
  show ?thesis
    using True r0 r1 r0' r1' readChannel_None
    unfolding interpolate_def Let_def index_def [symmetric]
    by (auto split: sum.splits option.splits if_splits)
qed

lemma renderSample_in_range:
  assumes "buffer_ok (audioData smp)"
  shows "renderSample A smp pm start k st \<noteq> Inl (IndexOutOfRange j)"
proof -
  obtain v p out where st: "st = (v, p, out)" by (cases st)
  show ?thesis
    using interpolate_in_range [OF assms, of "currentPosition v" j]
    unfolding st renderSample_def Let_def
    by (auto split: sum.splits prod.splits)
qed

lemma renderLoop_in_range:
  assumes "buffer_ok (audioData smp)"
  shows "renderLoop A smp pm start n k st \<noteq> Inl (IndexOutOfRange j)"
proof (induction n arbitrary: k st)
  case 0
  show ?case by simp
next
  case (Suc n)
  show ?case
    using renderSample_in_range [OF assms, of A pm start k st j] Suc.IH
    by (auto split: sum.splits)
qed

lemma renderSample_silent_outside:
  assumes "currentPosition v < 0 \<or> currentPosition v \<ge> real_of_int (getNumSamples (audioData smp))"
  shows "\<exists>b v' p'. renderSample A smp pm start k (v, p, out) = Inr (b, v', p', out)"
proof -
  have a: "addSample c i 0 buf = buf" for c i buf
    by (simp add: addSample_def)
  show ?thesis
    using interpolate_outside [OF assms]
    unfolding renderSample_def Let_def
    by (auto simp: a split: prod.splits)
qed

text \<open>
  Claim C10. When every buffer of the library has channels of its stated length, no
  render call reads a channel at an index outside it. While the cursor is outside the
  range from 0 to the sample length, nothing is read at all (the interpolation yields zero
  even from null pointers) and the pass for that output sample leaves the output buffer
  as it was.
\<close>

theorem render_never_reads_out_of_range:
  assumes "\<forall>s\<in>set (samples engine). buffer_ok (audioData s)"
  shows "renderNextBlock A engine mm start n st \<noteq> Inl (ReadError (IndexOutOfRange j))
       \<and> ((pos < 0 \<or> pos \<ge> real_of_int len) \<longrightarrow> interpolate sd sdr len pos = Inr (0, 0))
       \<and> ((currentPosition v < 0 \<or> currentPosition v \<ge> real_of_int (getNumSamples (audioData smp)))
            \<longrightarrow> (\<exists>b v' p'. renderSample A smp pm start k (v, p, out) = Inr (b, v', p', out)))"
proof -
  obtain v0 p0 out0 where st: "st = (v0, p0, out0)" by (cases st)
  have "renderNextBlock A engine mm start n st \<noteq> Inl (ReadError (IndexOutOfRange j))"
  proof (cases "currentSample v0")
    case None
    then show ?thesis by (simp add: renderNextBlock_def st split: prod.splits)
  next
    case (Some i)
    show ?thesis
    proof (cases "\<not> adsr_isActive A (adsr v0) \<or> i \<ge> length (samples engine)")
      case True
      then show ?thesis using Some by (auto simp: renderNextBlock_def st split: prod.splits)
    next
      case False
      then have "buffer_ok (audioData (samples engine ! i))"
        using assms by simp
      from renderLoop_in_range [OF this, of A "getModulationValue mm Pitch" start "nat n" 0 st j]
      show ?thesis
        using False Some by (auto simp: renderNextBlock_def st split: sum.splits)
    qed
  qed
  then show ?thesis
    using interpolate_outside renderSample_silent_outside by blast
qed

theorem render_never_reads_out_of_range_witness:
  "buffer_ok (audioData (loopedSample 0))
   \<and> (case renderNextBlock juceADSR \<lparr>samples = [loopedSample 0]\<rparr> exampleMatrix 0 1
              (exampleVoice\<lparr>currentPosition := 7.5\<rparr>, exampleProcessor, silentOutput) of
         Inr (v', p', out') \<Rightarrow> outSamples out' 0 0 = 5.6 \<and> outSamples out' 1 0 = 5.6
       | Inl e \<Rightarrow> False)
   \<and> interpolate None None 8 9 = Inr (0, 0)
   \<and> (case renderSample juceADSR (loopedSample 0) 0 0 0
              (exampleVoice\<lparr>currentPosition := - 0.5\<rparr>, exampleProcessor, silentOutput) of
         Inr (b, v', p', out') \<Rightarrow> outSamples out' 0 0 = 0 \<and> outSamples out' 1 0 = 0
       | Inl e \<Rightarrow> False)"
proof -
  let ?E = "\<lparr>samples = [loopedSample 0]\<rparr>"
  have ok: "buffer_ok (audioData (loopedSample 0))"
    by (simp add: buffer_ok_def loopedSample_def exampleBuffer_def)
  then have h: "\<forall>s\<in>set (samples ?E). buffer_ok (audioData s)"
    by simp
  have o: "(- 0.5::real) < 0 \<or> - 0.5 \<ge> real_of_int (getNumSamples (audioData (loopedSample 0)))"
    by simp
  from render_never_reads_out_of_range [OF h, of juceADSR exampleMatrix 0 1
      "(exampleVoice\<lparr>currentPosition := 7.5\<rparr>, exampleProcessor, silentOutput)" 8 9 8
      None None "exampleVoice\<lparr>currentPosition := - 0.5\<rparr>" "loopedSample 0" 0 0
      exampleProcessor silentOutput] ok
  show ?thesis
    by (simp add: eval_defs)
qed

end
